theory Spec2Isabelle
  imports Main "HOL-Library.Word"
begin

section \<open>Go's \<^verbatim>\<open>strings\<close> package, as far as \<^verbatim>\<open>prow/spyglass/artifacts.go\<close> uses it\<close>

text \<open>
  A Go string is a sequence of bytes, and so is a HOL \<^typ>\<open>string\<close>. The file only ever
  splits on the one-byte separator \<^verbatim>\<open>"/"\<close>, so the separator is a \<^typ>\<open>char\<close>.

  \<^verbatim>\<open>strings.Split(s, sep)\<close> cuts \<open>s\<close> at every separator; the result has one more element
  than \<open>s\<close> has separators, so it is never empty (\<^verbatim>\<open>Split("", "/")\<close> is \<^verbatim>\<open>[""]\<close>).
\<close>

fun Split :: "string \<Rightarrow> char \<Rightarrow> string list" where
  "Split [] c = ['''']"
| "Split (x # xs) c =
     (if x = c then [] # Split xs c
      else (case Split xs c of [] \<Rightarrow> [x # ''''] | p # ps \<Rightarrow> (x # p) # ps))"

text \<open>
  \<^verbatim>\<open>strings.SplitN(s, sep, n)\<close> for \<open>n \<ge> 0\<close>: at most \<open>n\<close> pieces, the last one being the
  unsplit remainder; \<open>n = 0\<close> gives no piece at all. (The file calls it with \<open>n = 2\<close> only.)
\<close>

fun SplitN :: "string \<Rightarrow> char \<Rightarrow> nat \<Rightarrow> string list" where
  "SplitN s c 0 = []"
| "SplitN s c (Suc 0) = [s]"
| "SplitN s c (Suc (Suc n)) =
     (if c \<in> set s
      then takeWhile (\<lambda>x. x \<noteq> c) s # SplitN (tl (dropWhile (\<lambda>x. x \<noteq> c) s)) c (Suc n)
      else [s])"

definition HasPrefix :: "string \<Rightarrow> string \<Rightarrow> bool" where
  "HasPrefix s pre \<longleftrightarrow> length pre \<le> length s \<and> take (length pre) s = pre"

definition HasSuffix :: "string \<Rightarrow> string \<Rightarrow> bool" where
  "HasSuffix s suf \<longleftrightarrow> length suf \<le> length s \<and> drop (length s - length suf) s = suf"

definition TrimSuffix :: "string \<Rightarrow> string \<Rightarrow> string" where
  "TrimSuffix s suf = (if HasSuffix s suf then take (length s - length suf) s else s)"

section \<open>Data\<close>

text \<open>
  Every \<^verbatim>\<open>fmt.Errorf\<close> of the file is a constructor, with the values it formats; an error
  handed back by a collaborator is opaque.
\<close>

datatype error =
    CollaboratorError string
  | InvalidSrcExpectedKey string
  | ErrorParsingSrc error
  | UnrecognizedKeyType string
  | ProwSrcIncorrectlyFormatted string
  | FailedToGetProwJob string error
  | UnexpectedJobURL string string
  | KeyIncorrectlyFormatted string
  | InvalidSrc string

text \<open>Of a prow job the file reads \<^verbatim>\<open>job.Status.URL\<close> only.\<close>

record ProwJobStatus =
  URL :: string

record ProwJob =
  Status :: ProwJobStatus

text \<open>What \<^verbatim>\<open>logrus\<close> is asked to write (the duration of the last entry is real time, and left out).\<close>

datatype logentry =
    WarnFailedToGetGcsSource error
  | WarnFailedToListArtifacts error
  | WarnInvalidGcsKey string
  | Warningln error
  | ErrorFailedToFetchArtifact string error
  | ErrorFailedToFetchPodLog error
  | InfoRetrievedArtifacts string

text \<open>
  The calls a run makes to its collaborators, in order, together with its log entries.
  \<open>'a\<close> is the type of artifact handles (\<^verbatim>\<open>lenses.Artifact\<close>).
\<close>

datatype 'a event =
    GetProwJob_call string string
  | config_call
  | artifacts_call string
  | artifact_call string string "64 word"
  | Size_call 'a
  | PodLog_artifact_call string string "64 word"
  | Logged logentry

text \<open>
  The receiver \<^verbatim>\<open>s *Spyglass\<close>. Its collaborators are outside the file, and so are the two
  package constants \<^verbatim>\<open>gcsKeyType\<close> and \<^verbatim>\<open>prowKeyType\<close>: all are parameters. During one
  call the backing store is taken as unchanged, so a collaborator answers as a function of
  its arguments. A Go pair \<^verbatim>\<open>(value, error)\<close> whose value the file never reads when the error
  is set is a sum; the listing's pair is kept as a pair, since \<^verbatim>\<open>ListArtifacts\<close> appends
  to the names it got also when the listing failed.
\<close>

record 'a Spyglass =
  gcsKeyType :: string
  prowKeyType :: string
  GetProwJob :: "string \<Rightarrow> string \<Rightarrow> error + ProwJob"
  JobURLPrefix :: string
  GCS_artifacts :: "string \<Rightarrow> string list \<times> error option"
  GCS_artifact :: "string \<Rightarrow> string \<Rightarrow> 64 word \<Rightarrow> error + 'a"
  art_Size :: "'a \<Rightarrow> error + 64 word"
  PodLog_artifact :: "string \<Rightarrow> string \<Rightarrow> 64 word \<Rightarrow> error + 'a"

section \<open>The functions of the file\<close>

text \<open>\<^verbatim>\<open>splitSrc\<close>: the named results are the zero values when the error is returned.\<close>

definition splitSrc :: "string \<Rightarrow> string \<times> string \<times> error option" where
  "splitSrc src =
     (let split = SplitN src (CHR ''/'') 2 in
      if length split < 2 then ('''', '''', Some (InvalidSrcExpectedKey src))
      else (split ! 0, split ! 1, None))"

text \<open>\<^verbatim>\<open>prowToGCS\<close> returns the pair \<^verbatim>\<open>(string, error)\<close>; its callers read the string in both cases.\<close>

definition prowToGCS :: "'a Spyglass \<Rightarrow> string \<Rightarrow> (string \<times> error option) \<times> 'a event list" where
  "prowToGCS s prowKey =
     (let parsed = Split prowKey (CHR ''/'') in
      if length parsed \<noteq> 2 then (('''', Some (ProwSrcIncorrectlyFormatted prowKey)), [])
      else
        let jobName = parsed ! 0; buildID = parsed ! 1 in
        case GetProwJob s jobName buildID of
          Inl err \<Rightarrow>
            (('''', Some (FailedToGetProwJob prowKey err)), [GetProwJob_call jobName buildID])
        | Inr job \<Rightarrow>
            let url = URL (Status job); prefix = JobURLPrefix s in
            if \<not> HasPrefix url prefix
            then (('''', Some (UnexpectedJobURL url prefix)),
                  [GetProwJob_call jobName buildID, config_call])
            else ((drop (length prefix) url, None),
                  [GetProwJob_call jobName buildID, config_call]))"

text \<open>The loop of \<^verbatim>\<open>ListArtifacts\<close> that looks for the build log and breaks when it finds it.\<close>

fun logFound :: "string list \<Rightarrow> bool" where
  "logFound [] = False"
| "logFound (name # names) = (if name = ''build-log.txt'' then True else logFound names)"

text \<open>Lines 46 to 62 of \<^verbatim>\<open>ListArtifacts\<close>: list, look for the log, append it.\<close>

definition ListArtifacts_list ::
  "'a Spyglass \<Rightarrow> string \<Rightarrow> (string list \<times> error option) \<times> 'a event list" where
  "ListArtifacts_list s gcsKey =
     (let (artifactNames, err) = GCS_artifacts s gcsKey;
          found = logFound artifactNames;
          tr = artifacts_call gcsKey #
               (case err of None \<Rightarrow> [] | Some e \<Rightarrow> [Logged (WarnFailedToListArtifacts e)])
      in if err \<noteq> None \<or> \<not> found
         then ((artifactNames @ [''build-log.txt''], None), tr)
         else ((artifactNames, None), tr))"

definition ListArtifacts ::
  "'a Spyglass \<Rightarrow> string \<Rightarrow> (string list \<times> error option) \<times> 'a event list" where
  "ListArtifacts s src =
     (case splitSrc src of
        (keyType, key, Some err) \<Rightarrow> (([], Some (ErrorParsingSrc err)), [])
      | (keyType, key, None) \<Rightarrow>
          if keyType = gcsKeyType s then ListArtifacts_list s key
          else if keyType = prowKeyType s then
            (let ((gcsKey, err), tr) = prowToGCS s key;
                 tr' = tr @ (case err of None \<Rightarrow> []
                             | Some e \<Rightarrow> [Logged (WarnFailedToGetGcsSource e)]);
                 (res, tr'') = ListArtifacts_list s gcsKey
             in (res, tr' @ tr''))
          else (([], Some (UnrecognizedKeyType src)), []))"

text \<open>
  Lines 92 to 121 of \<^verbatim>\<open>FetchArtifacts\<close>: either the call returns there (\<open>Inl\<close>, with what
  it returns), or it goes on with \<^verbatim>\<open>gcsKey\<close>, \<^verbatim>\<open>jobName\<close> and \<^verbatim>\<open>buildID\<close>.
\<close>

definition FetchArtifacts_resolve ::
  "'a Spyglass \<Rightarrow> string \<Rightarrow>
     ('a list \<times> error option) + (string \<times> string \<times> string \<times> 'a event list)" where
  "FetchArtifacts_resolve s src =
     (case splitSrc src of
        (keyType, key, Some err) \<Rightarrow> Inl ([], Some (ErrorParsingSrc err))
      | (keyType, key, None) \<Rightarrow>
          if keyType = gcsKeyType s then
            (let gcsKey = TrimSuffix key ''/'';
                 parts = Split gcsKey (CHR ''/'')
             in if length parts < 2
                then Inr (gcsKey, '''', '''', [Logged (WarnInvalidGcsKey gcsKey)])
                else Inr (gcsKey, parts ! (length parts - 2), parts ! (length parts - 1), []))
          else if keyType = prowKeyType s then
            (let parts = Split key (CHR ''/'') in
             if length parts \<noteq> 2 then Inl ([], Some (KeyIncorrectlyFormatted key))
             else
               let jobName = parts ! 0; buildID = parts ! 1;
                   ((gcsKey, err), tr) = prowToGCS s key
               in Inr (gcsKey, jobName, buildID,
                       tr @ (case err of None \<Rightarrow> [] | Some e \<Rightarrow> [Logged (Warningln e)])))
          else Inl ([], Some (InvalidSrc src)))"

text \<open>
  One requested name: the handle, and when there is one, the probe \<^verbatim>\<open>art.Size()\<close>.
  The result is the handle, or the error of whichever of the two steps failed.
\<close>

definition probe :: "'a Spyglass \<Rightarrow> string \<Rightarrow> string \<Rightarrow> 64 word \<Rightarrow> (error + 'a) \<times> 'a event list" where
  "probe s gcsKey name sizeLimit =
     (case GCS_artifact s gcsKey name sizeLimit of
        Inl err \<Rightarrow> (Inl err, [artifact_call gcsKey name sizeLimit])
      | Inr art \<Rightarrow>
          (case art_Size s art of
             Inl err \<Rightarrow> (Inl err, [artifact_call gcsKey name sizeLimit, Size_call art])
           | Inr sz \<Rightarrow> (Inr art, [artifact_call gcsKey name sizeLimit, Size_call art])))"

text \<open>The loop over the requested names; its state is \<^verbatim>\<open>arts\<close>, \<^verbatim>\<open>podLogNeeded\<close> and the trace.\<close>

fun fetchLoop ::
  "'a Spyglass \<Rightarrow> string \<Rightarrow> 64 word \<Rightarrow> string list \<Rightarrow>
     'a list \<times> bool \<times> 'a event list \<Rightarrow> 'a list \<times> bool \<times> 'a event list" where
  "fetchLoop s gcsKey sizeLimit [] st = st"
| "fetchLoop s gcsKey sizeLimit (name # names) (arts, podLogNeeded, tr) =
     (case probe s gcsKey name sizeLimit of
        (Inl err, tr') \<Rightarrow>
          if name = ''build-log.txt''
          then fetchLoop s gcsKey sizeLimit names (arts, True, tr @ tr')
          else fetchLoop s gcsKey sizeLimit names
                 (arts, podLogNeeded, tr @ tr' @ [Logged (ErrorFailedToFetchArtifact name err)])
      | (Inr art, tr') \<Rightarrow>
          fetchLoop s gcsKey sizeLimit names (arts @ [art], podLogNeeded, tr @ tr'))"

text \<open>Lines 123 to 153 of \<^verbatim>\<open>FetchArtifacts\<close>: the loop, then the pod log when it is needed.\<close>

definition FetchArtifacts_fetch ::
  "'a Spyglass \<Rightarrow> string \<Rightarrow> string \<Rightarrow> string \<Rightarrow> string \<Rightarrow> 64 word \<Rightarrow> string list \<Rightarrow>
     'a event list \<Rightarrow> ('a list \<times> error option) \<times> 'a event list" where
  "FetchArtifacts_fetch s src gcsKey jobName buildID sizeLimit artifactNames tr0 =
     (let (arts, podLogNeeded, tr) = fetchLoop s gcsKey sizeLimit artifactNames ([], False, tr0);
          (arts', tr') =
            (if podLogNeeded then
               (case PodLog_artifact s jobName buildID sizeLimit of
                  Inl err \<Rightarrow>
                    (arts, tr @ [PodLog_artifact_call jobName buildID sizeLimit,
                                 Logged (ErrorFailedToFetchPodLog err)])
                | Inr art \<Rightarrow>
                    (arts @ [art], tr @ [PodLog_artifact_call jobName buildID sizeLimit]))
             else (arts, tr))
      in ((arts', None), tr' @ [Logged (InfoRetrievedArtifacts src)]))"

definition FetchArtifacts ::
  "'a Spyglass \<Rightarrow> string \<Rightarrow> string \<Rightarrow> 64 word \<Rightarrow> string list \<Rightarrow>
     ('a list \<times> error option) \<times> 'a event list" where
  "FetchArtifacts s src podName sizeLimit artifactNames =
     (case FetchArtifacts_resolve s src of
        Inl ret \<Rightarrow> (ret, [])
      | Inr (gcsKey, jobName, buildID, tr0) \<Rightarrow>
          FetchArtifacts_fetch s src gcsKey jobName buildID sizeLimit artifactNames tr0)"

section \<open>A deployment to run the functions on\<close>

text \<open>
  Handles are strings here. The job \<^verbatim>\<open>job/123\<close> is known and lives under the configured
  prefix, the job \<^verbatim>\<open>job/7\<close> is known and lives elsewhere; the bucket holds \<^verbatim>\<open>a.txt\<close> and
  the build log for \<^verbatim>\<open>bucket/job/123\<close>, and \<^verbatim>\<open>a.txt\<close> alone for \<^verbatim>\<open>bucket/job/124\<close>,
  whose pod is still running, and for \<^verbatim>\<open>bucket/job/127\<close>, whose pod is gone. The listing
  of \<^verbatim>\<open>bucket/job/126\<close> times out after it has named \<^verbatim>\<open>a.txt\<close> and the build log, and hands
  back these names with its error.
\<close>

definition fakeSpyglass :: "string Spyglass" where
  "fakeSpyglass =
     \<lparr> gcsKeyType = ''gcs'',
       prowKeyType = ''prowjob'',
       GetProwJob = (\<lambda>jobName buildID.
          if jobName = ''job'' \<and> buildID = ''123''
          then Inr \<lparr> Status = \<lparr> URL = ''https://prow/view/gcs/bucket/job/123'' \<rparr> \<rparr>
          else if jobName = ''job'' \<and> buildID = ''7''
          then Inr \<lparr> Status = \<lparr> URL = ''https://elsewhere/bucket/job/7'' \<rparr> \<rparr>
          else Inl (CollaboratorError ''no such job'')),
       JobURLPrefix = ''https://prow/view/gcs/'',
       GCS_artifacts = (\<lambda>key.
          if key = ''bucket/job/123'' then ([''a.txt'', ''build-log.txt''], None)
          else if key = ''bucket/job/124'' then ([''a.txt''], None)
          else if key = ''bucket/job/126''
          then ([''a.txt'', ''build-log.txt''], Some (CollaboratorError ''timed out''))
          else ([], Some (CollaboratorError ''no such path''))),
       GCS_artifact = (\<lambda>key name sizeLimit.
          if key = '''' then Inl (CollaboratorError ''no such path'')
          else Inr (key @ ''/'' @ name)),
       art_Size = (\<lambda>art.
          if art = ''bucket/job/123/a.txt'' \<or> art = ''bucket/job/123/build-log.txt''
             \<or> art = ''bucket/job/124/a.txt'' \<or> art = ''bucket/job/127/a.txt''
             \<or> art = ''bucket/a.txt''
          then Inr 10
          else Inl (CollaboratorError ''no such object'')),
       PodLog_artifact = (\<lambda>jobName buildID sizeLimit.
          if jobName = ''job'' \<and> buildID = ''124'' then Inr ''pod:job/124''
          else if jobName = '''' \<and> buildID = '''' then Inr ''pod:/''
          else Inl (CollaboratorError ''no such pod'')) \<rparr>"

section \<open>Vocabulary of the properties\<close>

text \<open>The handle-or-probe step fails for a name: no handle, or no size.\<close>

definition probeFails :: "'a Spyglass \<Rightarrow> string \<Rightarrow> 64 word \<Rightarrow> string \<Rightarrow> bool" where
  "probeFails s gcsKey sizeLimit name \<longleftrightarrow> isl (fst (probe s gcsKey name sizeLimit))"

text \<open>The handles of the requested names whose step succeeds, in the order of the request.\<close>

definition fetched :: "'a Spyglass \<Rightarrow> string \<Rightarrow> 64 word \<Rightarrow> string list \<Rightarrow> 'a list" where
  "fetched s gcsKey sizeLimit names =
     map (\<lambda>n. projr (fst (probe s gcsKey n sizeLimit)))
       (filter (\<lambda>n. \<not> probeFails s gcsKey sizeLimit n) names)"

text \<open>What the pod-log fallback adds to the result: its handle, when it is needed and succeeds.\<close>

definition podLogFallback ::
  "'a Spyglass \<Rightarrow> string \<Rightarrow> string \<Rightarrow> string \<Rightarrow> 64 word \<Rightarrow> string list \<Rightarrow> 'a list" where
  "podLogFallback s gcsKey jobName buildID sizeLimit names =
     (if ''build-log.txt'' \<in> set names \<and> probeFails s gcsKey sizeLimit ''build-log.txt''
      then (case PodLog_artifact s jobName buildID sizeLimit of Inl err \<Rightarrow> [] | Inr art \<Rightarrow> [art])
      else [])"

text \<open>The events of the loop of \<^verbatim>\<open>FetchArtifacts\<close> over a list of names.\<close>

definition loopTrace :: "'a Spyglass \<Rightarrow> string \<Rightarrow> 64 word \<Rightarrow> string list \<Rightarrow> 'a event list" where
  "loopTrace s gcsKey sizeLimit names =
     concat (map (\<lambda>n. snd (probe s gcsKey n sizeLimit) @
                      (case fst (probe s gcsKey n sizeLimit) of
                         Inl err \<Rightarrow> if n = ''build-log.txt'' then []
                                    else [Logged (ErrorFailedToFetchArtifact n err)]
                       | Inr art \<Rightarrow> [])) names)"

text \<open>The calls to the pod-log collaborator in a trace.\<close>

fun isPodLogCall :: "'a event \<Rightarrow> bool" where
  "isPodLogCall (PodLog_artifact_call jobName buildID sizeLimit) = True"
| "isPodLogCall e = False"

definition podLogCalls :: "'a event list \<Rightarrow> 'a event list" where
  "podLogCalls tr = filter isPodLogCall tr"

text \<open>The storage paths handed to the storage collaborator in a trace, one per call.\<close>

fun storagePath :: "'a event \<Rightarrow> string option" where
  "storagePath (artifacts_call gcsKey) = Some gcsKey"
| "storagePath (artifact_call gcsKey name sizeLimit) = Some gcsKey"
| "storagePath e = None"

definition storagePaths :: "'a event list \<Rightarrow> string list" where
  "storagePaths tr = List.map_filter storagePath tr"

text \<open>A key with all its trailing separators removed, as the specification words it.\<close>

definition trimTrailingSeparators :: "string \<Rightarrow> string" where
  "trimTrailingSeparators key = rev (dropWhile (\<lambda>c. c = CHR ''/'') (rev key))"

section \<open>Facts about the string functions\<close>

lemma SplitN_2_no_sep: "c \<notin> set s \<Longrightarrow> SplitN s c 2 = [s]"
  by (simp add: numeral_2_eq_2)

lemma SplitN_2_sep:
  "c \<in> set s \<Longrightarrow> SplitN s c 2 = [takeWhile (\<lambda>x. x \<noteq> c) s, tl (dropWhile (\<lambda>x. x \<noteq> c) s)]"
  by (simp add: numeral_2_eq_2)

lemma splitSrc_no_sep:
  "CHR ''/'' \<notin> set src \<Longrightarrow> splitSrc src = ('''', '''', Some (InvalidSrcExpectedKey src))"
  by (simp add: splitSrc_def SplitN_2_no_sep)

lemma splitSrc_sep:
  "CHR ''/'' \<in> set src \<Longrightarrow>
   splitSrc src = (takeWhile (\<lambda>x. x \<noteq> CHR ''/'') src, tl (dropWhile (\<lambda>x. x \<noteq> CHR ''/'') src), None)"
  by (simp add: splitSrc_def SplitN_2_sep)

lemma splitSrc_error_iff: "snd (snd (splitSrc src)) \<noteq> None \<longleftrightarrow> CHR ''/'' \<notin> set src"
  by (cases "CHR ''/'' \<in> set src") (simp_all add: splitSrc_sep splitSrc_no_sep)

lemma splitSrc_append:
  "CHR ''/'' \<notin> set kt \<Longrightarrow> splitSrc (kt @ ''/'' @ key) = (kt, key, None)"
  by (simp add: splitSrc_sep takeWhile_append dropWhile_append)

lemma logFound_iff: "logFound names \<longleftrightarrow> ''build-log.txt'' \<in> set names"
  by (induction names) auto

lemma HasPrefix_iff: "HasPrefix s pre \<longleftrightarrow> (\<exists>t. s = pre @ t)"
  unfolding HasPrefix_def
  by (metis append_eq_conv_conj append_take_drop_id length_append le_add1)

lemma Split_not_Nil: "Split s c \<noteq> []"
  by (induction s) (auto split: list.splits)

lemma length_Split: "length (Split s c) = Suc (length (filter (\<lambda>x. x = c) s))"
  by (induction s) (auto split: list.splits simp: Split_not_Nil)

lemma TrimSuffix_sep:
  "TrimSuffix key ''/'' = (if key \<noteq> [] \<and> last key = CHR ''/'' then butlast key else key)"
proof (cases key rule: rev_cases)
  case Nil
  then show ?thesis by (simp add: TrimSuffix_def HasSuffix_def)
next
  case (snoc ys y)
  then show ?thesis by (auto simp add: TrimSuffix_def HasSuffix_def)
qed

section \<open>What the functions compute\<close>

lemma fetchLoop_eq:
  "fetchLoop s k l names (arts, need, tr) =
     (arts @ fetched s k l names,
      need \<or> (''build-log.txt'' \<in> set names \<and> probeFails s k l ''build-log.txt''),
      tr @ loopTrace s k l names)"
proof (induction names arbitrary: arts need tr)
  case Nil
  show ?case by (simp add: fetched_def loopTrace_def)
next
  case (Cons n names)
  obtain r t where p: "probe s k n l = (r, t)" by (cases "probe s k n l")
  show ?case
  proof (cases r)
    case (Inl err)
    with p Cons show ?thesis
      by (auto simp add: fetched_def loopTrace_def probeFails_def)
  next
    case (Inr art)
    with p Cons show ?thesis
      by (auto simp add: fetched_def loopTrace_def probeFails_def)
  qed
qed

lemma podLogCalls_probe: "podLogCalls (snd (probe s k n l)) = []"
  by (simp add: podLogCalls_def probe_def split: sum.splits)

lemma podLogCalls_append: "podLogCalls (xs @ ys) = podLogCalls xs @ podLogCalls ys"
  by (simp add: podLogCalls_def)

lemma podLogCalls_loopTrace: "podLogCalls (loopTrace s k l names) = []"
  by (induction names) (simp_all add: loopTrace_def podLogCalls_append podLogCalls_probe, auto simp: podLogCalls_def split: sum.splits)

lemma storagePaths_append: "storagePaths (xs @ ys) = storagePaths xs @ storagePaths ys"
  by (simp add: storagePaths_def map_filter_def)

lemma storagePaths_probe: "storagePaths (snd (probe s k n l)) = [k]"
  by (simp add: storagePaths_def map_filter_def probe_def split: sum.splits)

lemma storagePaths_loopTrace: "storagePaths (loopTrace s k l names) = replicate (length names) k"
  by (induction names) (simp_all add: loopTrace_def storagePaths_append storagePaths_probe, auto simp: storagePaths_def map_filter_def split: sum.splits)

lemma ListArtifacts_list_eq:
  "GCS_artifacts s gcsKey = (listed, lerr) \<Longrightarrow>
   ListArtifacts_list s gcsKey =
     (((if lerr \<noteq> None \<or> ''build-log.txt'' \<notin> set listed then listed @ [''build-log.txt''] else listed),
       None),
      artifacts_call gcsKey #
        (case lerr of None \<Rightarrow> [] | Some e \<Rightarrow> [Logged (WarnFailedToListArtifacts e)]))"
  by (simp add: ListArtifacts_list_def logFound_iff)

lemma ListArtifacts_list_no_error: "snd (fst (ListArtifacts_list s gcsKey)) = None"
  by (cases "GCS_artifacts s gcsKey") (simp add: ListArtifacts_list_eq)

lemma storagePaths_ListArtifacts_list: "storagePaths (snd (ListArtifacts_list s gcsKey)) = [gcsKey]"
  by (cases "GCS_artifacts s gcsKey")
     (simp add: ListArtifacts_list_eq storagePaths_def map_filter_def split: option.splits)

lemma storagePaths_prowToGCS: "storagePaths (snd (prowToGCS s key)) = []"
  by (simp add: prowToGCS_def Let_def storagePaths_def map_filter_def split: sum.splits)

lemma podLogCalls_prowToGCS: "podLogCalls (snd (prowToGCS s key)) = []"
  by (simp add: prowToGCS_def Let_def podLogCalls_def split: sum.splits)

lemma ListArtifacts_gcs:
  "splitSrc src = (gcsKeyType s, key, None) \<Longrightarrow> ListArtifacts s src = ListArtifacts_list s key"
  by (simp add: ListArtifacts_def)

lemma ListArtifacts_prow:
  "splitSrc src = (prowKeyType s, key, None) \<Longrightarrow> prowKeyType s \<noteq> gcsKeyType s \<Longrightarrow>
   ListArtifacts s src =
     (fst (ListArtifacts_list s (fst (fst (prowToGCS s key)))),
      snd (prowToGCS s key) @
      (case snd (fst (prowToGCS s key)) of None \<Rightarrow> []
       | Some e \<Rightarrow> [Logged (WarnFailedToGetGcsSource e)]) @
      snd (ListArtifacts_list s (fst (fst (prowToGCS s key)))))"
  by (simp add: ListArtifacts_def Let_def split: prod.splits)

text \<open>A successful \<^verbatim>\<open>ListArtifacts\<close> is the listing of one path, after events that are no storage call.\<close>

lemma ListArtifacts_success:
  assumes "ListArtifacts s src = ((names, None), tr)"
  shows "\<exists>gcsKey tr0. storagePaths tr0 = [] \<and> tr = tr0 @ snd (ListArtifacts_list s gcsKey)
           \<and> names = fst (fst (ListArtifacts_list s gcsKey))"
proof -
  obtain kt key e where sp: "splitSrc src = (kt, key, e)" by (cases "splitSrc src")
  from assms sp have e: "e = None" by (cases e) (simp_all add: ListArtifacts_def)
  show ?thesis
  proof (cases "kt = gcsKeyType s")
    case True
    with assms sp e have "ListArtifacts_list s key = ((names, None), tr)"
      by (simp add: ListArtifacts_def)
    then have "storagePaths ([]::'a event list) = [] \<and> tr = [] @ snd (ListArtifacts_list s key)
         \<and> names = fst (fst (ListArtifacts_list s key))"
      by (simp add: storagePaths_def map_filter_def)
    then show ?thesis by blast
  next
    case False
    with assms sp e have kp: "kt = prowKeyType s"
      by (auto simp add: ListArtifacts_def split: if_splits)
    let ?g = "fst (fst (prowToGCS s key))"
    let ?t = "snd (prowToGCS s key) @
      (case snd (fst (prowToGCS s key)) of None \<Rightarrow> []
       | Some e \<Rightarrow> [Logged (WarnFailedToGetGcsSource e)])"
    from False kp sp e have "ListArtifacts s src =
       (fst (ListArtifacts_list s ?g), ?t @ snd (ListArtifacts_list s ?g))"
      using ListArtifacts_prow [of src s key] by simp
    with assms have "tr = ?t @ snd (ListArtifacts_list s ?g)"
      and "names = fst (fst (ListArtifacts_list s ?g))" by simp_all
    moreover have "storagePaths ?t = []"
      by (simp add: storagePaths_append storagePaths_prowToGCS)
         (simp add: storagePaths_def map_filter_def split: option.splits)
    ultimately show ?thesis by blast
  qed
qed

lemma ListArtifacts_error_iff:
  "snd (fst (ListArtifacts s src)) \<noteq> None \<longleftrightarrow>
     CHR ''/'' \<notin> set src \<or>
     (fst (splitSrc src) \<noteq> gcsKeyType s \<and> fst (splitSrc src) \<noteq> prowKeyType s)"
proof (cases "CHR ''/'' \<in> set src")
  case False
  then show ?thesis by (simp add: ListArtifacts_def splitSrc_no_sep)
next
  case True
  then obtain kt key where sp: "splitSrc src = (kt, key, None)"
    by (simp add: splitSrc_sep)
  consider "kt = gcsKeyType s" | "kt \<noteq> gcsKeyType s" "kt = prowKeyType s"
    | "kt \<noteq> gcsKeyType s" "kt \<noteq> prowKeyType s" by blast
  then show ?thesis
  proof cases
    case 1
    with sp True show ?thesis
      by (simp add: ListArtifacts_gcs ListArtifacts_list_no_error)
  next
    case 2
    with sp True show ?thesis
      by (simp add: ListArtifacts_prow ListArtifacts_list_no_error)
  next
    case 3
    with sp True show ?thesis by (simp add: ListArtifacts_def)
  qed
qed

lemma FetchArtifacts_fetch_eq:
  "FetchArtifacts_fetch s src gcsKey jobName buildID l names tr0 =
     ((fetched s gcsKey l names @ podLogFallback s gcsKey jobName buildID l names, None),
      tr0 @ loopTrace s gcsKey l names @
      (if ''build-log.txt'' \<in> set names \<and> probeFails s gcsKey l ''build-log.txt''
       then PodLog_artifact_call jobName buildID l #
            (case PodLog_artifact s jobName buildID l of
               Inl err \<Rightarrow> [Logged (ErrorFailedToFetchPodLog err)] | Inr art \<Rightarrow> [])
       else []) @
      [Logged (InfoRetrievedArtifacts src)])"
  by (simp add: FetchArtifacts_fetch_def fetchLoop_eq podLogFallback_def split: sum.splits)

lemma FetchArtifacts_resolved:
  "FetchArtifacts_resolve s src = Inr (gcsKey, jobName, buildID, tr0) \<Longrightarrow>
   FetchArtifacts s src pod l names =
     FetchArtifacts_fetch s src gcsKey jobName buildID l names tr0"
  by (simp add: FetchArtifacts_def)

lemma FetchArtifacts_resolve_gcs:
  "splitSrc src = (gcsKeyType s, key, None) \<Longrightarrow>
   FetchArtifacts_resolve s src =
     (let gcsKey = TrimSuffix key ''/''; parts = Split gcsKey (CHR ''/'') in
      if length parts < 2 then Inr (gcsKey, '''', '''', [Logged (WarnInvalidGcsKey gcsKey)])
      else Inr (gcsKey, parts ! (length parts - 2), parts ! (length parts - 1), []))"
  by (simp add: FetchArtifacts_resolve_def)

lemma FetchArtifacts_resolve_prow:
  "splitSrc src = (prowKeyType s, key, None) \<Longrightarrow> prowKeyType s \<noteq> gcsKeyType s \<Longrightarrow>
   length (Split key (CHR ''/'')) = 2 \<Longrightarrow>
   FetchArtifacts_resolve s src =
     Inr (fst (fst (prowToGCS s key)), Split key (CHR ''/'') ! 0, Split key (CHR ''/'') ! 1,
          snd (prowToGCS s key) @
          (case snd (fst (prowToGCS s key)) of None \<Rightarrow> [] | Some e \<Rightarrow> [Logged (Warningln e)]))"
  by (simp add: FetchArtifacts_resolve_def Let_def split: prod.splits)

lemma FetchArtifacts_resolve_trace:
  assumes "FetchArtifacts_resolve s src = Inr (gcsKey, jobName, buildID, tr0)"
  shows "storagePaths tr0 = [] \<and> podLogCalls tr0 = []"
proof -
  obtain kt key e where sp: "splitSrc src = (kt, key, e)" by (cases "splitSrc src")
  from assms sp have e: "e = None" by (cases e) (simp_all add: FetchArtifacts_resolve_def)
  show ?thesis
  proof (cases "kt = gcsKeyType s")
    case True
    with assms sp e show ?thesis
      by (auto simp add: FetchArtifacts_resolve_gcs Let_def storagePaths_def map_filter_def
            podLogCalls_def split: if_splits)
  next
    case False
    with assms sp e have kp: "kt = prowKeyType s"
      by (auto simp add: FetchArtifacts_resolve_def split: if_splits)
    with assms sp e False have len: "length (Split key (CHR ''/'')) = 2"
      by (auto simp add: FetchArtifacts_resolve_def Let_def split: if_splits)
    from assms sp e False kp len have
      "tr0 = snd (prowToGCS s key) @
          (case snd (fst (prowToGCS s key)) of None \<Rightarrow> [] | Some e \<Rightarrow> [Logged (Warningln e)])"
      using FetchArtifacts_resolve_prow [of src s key] by simp
    then show ?thesis
      by (simp add: storagePaths_append podLogCalls_append storagePaths_prowToGCS
            podLogCalls_prowToGCS)
         (simp add: storagePaths_def map_filter_def podLogCalls_def split: option.splits)
  qed
qed

lemma FetchArtifacts_error_iff:
  "snd (fst (FetchArtifacts s src pod l names)) \<noteq> None \<longleftrightarrow> isl (FetchArtifacts_resolve s src)"
  by (cases "FetchArtifacts_resolve s src")
     (auto simp add: FetchArtifacts_def FetchArtifacts_fetch_eq FetchArtifacts_resolve_def Let_def
        split: prod.splits option.splits if_splits)

lemma FetchArtifacts_resolve_error_iff:
  "isl (FetchArtifacts_resolve s src) \<longleftrightarrow>
     CHR ''/'' \<notin> set src \<or>
     (fst (splitSrc src) \<noteq> gcsKeyType s \<and> fst (splitSrc src) \<noteq> prowKeyType s) \<or>
     (fst (splitSrc src) \<noteq> gcsKeyType s \<and> fst (splitSrc src) = prowKeyType s \<and>
      length (Split (fst (snd (splitSrc src))) (CHR ''/'')) \<noteq> 2)"
proof (cases "CHR ''/'' \<in> set src")
  case False
  then show ?thesis by (simp add: FetchArtifacts_resolve_def splitSrc_no_sep)
next
  case True
  then show ?thesis
    by (simp add: FetchArtifacts_resolve_def splitSrc_sep Let_def split: prod.splits)
qed

section \<open>The properties\<close>

text \<open>The definitions to unfold when a function is run on the deployment above.\<close>

lemmas run_defs =
  fakeSpyglass_def ListArtifacts_def ListArtifacts_list_def splitSrc_def prowToGCS_def
  FetchArtifacts_def FetchArtifacts_resolve_def FetchArtifacts_fetch_def probe_def
  HasPrefix_def HasSuffix_def TrimSuffix_def numeral_2_eq_2 Let_def
  storagePaths_def map_filter_def podLogCalls_def probeFails_def fetched_def podLogFallback_def
  trimTrailingSeparators_def

text \<open>
  Where the build log is in the result once. A successful \<^verbatim>\<open>ListArtifacts\<close> has asked the
  listing collaborator about exactly one path, and its result contains \<^verbatim>\<open>build-log.txt\<close>,
  whatever the listing answered; it contains it exactly once when the listing succeeded and
  named it at most once, and when the names that came back do not include it.
\<close>

lemma ListArtifacts_log_once:
  assumes "ListArtifacts s src = ((names, None), tr)"
  shows "\<exists>p listed lerr.
           storagePaths tr = [p] \<and> GCS_artifacts s p = (listed, lerr) \<and>
           ''build-log.txt'' \<in> set names \<and>
           ((lerr = None \<and> count_list listed ''build-log.txt'' \<le> 1)
              \<or> ''build-log.txt'' \<notin> set listed
            \<longrightarrow> count_list names ''build-log.txt'' = 1)"
proof -
  from ListArtifacts_success [OF assms] obtain gcsKey tr0 where
    tr0: "storagePaths tr0 = []" and tr: "tr = tr0 @ snd (ListArtifacts_list s gcsKey)"
    and names: "names = fst (fst (ListArtifacts_list s gcsKey))" by blast
  obtain listed lerr where l: "GCS_artifacts s gcsKey = (listed, lerr)"
    by (cases "GCS_artifacts s gcsKey")
  from tr tr0 have paths: "storagePaths tr = [gcsKey]"
    by (simp add: storagePaths_append storagePaths_ListArtifacts_list)
  from names l have n: "names =
      (if lerr \<noteq> None \<or> ''build-log.txt'' \<notin> set listed then listed @ [''build-log.txt'']
       else listed)"
    by (simp add: ListArtifacts_list_eq)
  then have mem: "''build-log.txt'' \<in> set names" by (simp split: if_splits)
  have once: "count_list names ''build-log.txt'' = 1"
    if "(lerr = None \<and> count_list listed ''build-log.txt'' \<le> 1) \<or> ''build-log.txt'' \<notin> set listed"
  proof (cases "''build-log.txt'' \<in> set listed")
    case False
    with n show ?thesis by (simp add: count_list_0_iff)
  next
    case True
    with that have "lerr = None" and le: "count_list listed ''build-log.txt'' \<le> 1" by simp_all
    with True n have "names = listed" by simp
    moreover from True have "count_list listed ''build-log.txt'' \<noteq> 0"
      by (simp add: count_list_0_iff)
    ultimately show ?thesis using le by simp
  qed
  from paths l mem once show ?thesis by blast
qed

text \<open>
  Where it is there once more. A listing that fails may hand back the names it had got so far,
  and \<^verbatim>\<open>ListArtifacts\<close> keeps them. When they hold the build log, the loop has found it, but
  the test of line 59 is \<^verbatim>\<open>err != nil || !logFound\<close>, and the error alone makes it append the
  name again.
\<close>

lemma ListArtifacts_failed_listing_appends_again:
  assumes "splitSrc src = (gcsKeyType s, key, None)"
    and "GCS_artifacts s key = (listed, Some e)"
    and "''build-log.txt'' \<in> set listed"
  shows "fst (ListArtifacts s src) = (listed @ [''build-log.txt''], None) \<and>
         2 \<le> count_list (fst (fst (ListArtifacts s src))) ''build-log.txt''"
proof -
  from assms(3) have "count_list listed ''build-log.txt'' \<noteq> 0"
    by (simp add: count_list_0_iff)
  with assms(1,2) show ?thesis
    by (simp add: ListArtifacts_gcs ListArtifacts_list_eq)
qed

text \<open>
  C1, on the code. The direct reference \<^verbatim>\<open>gcs/bucket/job/126\<close> is well formed, and its listing
  fails with the duplicate-free names \<^verbatim>\<open>a.txt\<close> and \<^verbatim>\<open>build-log.txt\<close>. \<^verbatim>\<open>ListArtifacts\<close>
  succeeds, and its result holds \<^verbatim>\<open>build-log.txt\<close> twice, where C1 says exactly once.
\<close>

theorem ListArtifacts_failed_partial_listing_twice:
  "splitSrc ''gcs/bucket/job/126'' = (gcsKeyType fakeSpyglass, ''bucket/job/126'', None) \<and>
   GCS_artifacts fakeSpyglass ''bucket/job/126'' =
     ([''a.txt'', ''build-log.txt''], Some (CollaboratorError ''timed out'')) \<and>
   ListArtifacts fakeSpyglass ''gcs/bucket/job/126'' =
     (([''a.txt'', ''build-log.txt'', ''build-log.txt''], None),
      [artifacts_call ''bucket/job/126'',
       Logged (WarnFailedToListArtifacts (CollaboratorError ''timed out''))]) \<and>
   count_list (fst (fst (ListArtifacts fakeSpyglass ''gcs/bucket/job/126''))) ''build-log.txt'' = 2"
  by (simp add: run_defs)

text \<open>
  C2 as stated fails. The reference \<^verbatim>\<open>foo/bar\<close> has a separator and is not job-addressed, and
  both operations return an error for it: its key type is neither of the two tokens.
\<close>

theorem unrecognized_key_type_counterexample:
  "CHR ''/'' \<in> set ''foo/bar'' \<and>
   ListArtifacts fakeSpyglass ''foo/bar'' = (([], Some (UnrecognizedKeyType ''foo/bar'')), []) \<and>
   FetchArtifacts fakeSpyglass ''foo/bar'' ''pod'' 100 [''build-log.txt''] =
     (([], Some (InvalidSrc ''foo/bar'')), [])"
  by (simp add: run_defs)

text \<open>
  C2 (amended). \<^verbatim>\<open>ListArtifacts\<close> returns an error exactly when the reference has no
  separator or its key type, the part before the first separator, is neither
  \<^verbatim>\<open>gcsKeyType\<close> nor \<^verbatim>\<open>prowKeyType\<close>. \<^verbatim>\<open>FetchArtifacts\<close> returns an error exactly in
  these two cases and when the key of a job-addressed reference does not split into exactly two
  parts. For every other input, and whatever the collaborators answer, both return no error.
\<close>

theorem top_level_errors:
  "(snd (fst (ListArtifacts s src)) \<noteq> None \<longleftrightarrow>
      CHR ''/'' \<notin> set src \<or>
      (fst (splitSrc src) \<noteq> gcsKeyType s \<and> fst (splitSrc src) \<noteq> prowKeyType s)) \<and>
   (snd (fst (FetchArtifacts s src podName sizeLimit artifactNames)) \<noteq> None \<longleftrightarrow>
      CHR ''/'' \<notin> set src \<or>
      (fst (splitSrc src) \<noteq> gcsKeyType s \<and> fst (splitSrc src) \<noteq> prowKeyType s) \<or>
      (fst (splitSrc src) \<noteq> gcsKeyType s \<and> fst (splitSrc src) = prowKeyType s \<and>
       length (Split (fst (snd (splitSrc src))) (CHR ''/'')) \<noteq> 2))"
  using ListArtifacts_error_iff [of s src] FetchArtifacts_error_iff [of s src podName sizeLimit artifactNames]
    FetchArtifacts_resolve_error_iff [of s src]
  by simp

text \<open>
  C2, witness: a job-addressed reference whose key has one part only, and a direct reference
  to a path the storage does not know.
\<close>

theorem top_level_errors_witness:
  "snd (fst (ListArtifacts fakeSpyglass ''prowjob/job'')) = None \<and>
   snd (fst (FetchArtifacts fakeSpyglass ''prowjob/job'' ''pod'' 100 [''a.txt''])) \<noteq> None \<and>
   snd (fst (ListArtifacts fakeSpyglass ''gcs/nowhere'')) = None \<and>
   snd (fst (FetchArtifacts fakeSpyglass ''gcs/nowhere'' ''pod'' 100 [''a.txt''])) = None"
proof -
  have a: "splitSrc ''prowjob/job'' = (''prowjob'', ''job'', None)"
    and b: "splitSrc ''gcs/nowhere'' = (''gcs'', ''nowhere'', None)"
    by (simp_all add: splitSrc_def numeral_2_eq_2)
  have k: "gcsKeyType fakeSpyglass = ''gcs''" "prowKeyType fakeSpyglass = ''prowjob''"
    by (simp_all add: fakeSpyglass_def)
  show ?thesis
    using top_level_errors [of fakeSpyglass "''prowjob/job''" "''pod''" 100 "[''a.txt'']"]
      top_level_errors [of fakeSpyglass "''gcs/nowhere''" "''pod''" 100 "[''a.txt'']"]
    by (simp add: a b k)
qed

text \<open>
  C3. For a reference without separator, \<^verbatim>\<open>ListArtifacts\<close> and \<^verbatim>\<open>FetchArtifacts\<close> each
  return the parse error together with an empty list, and call no collaborator.
\<close>

theorem no_separator_is_an_error:
  assumes "CHR ''/'' \<notin> set src"
  shows "ListArtifacts s src = (([], Some (ErrorParsingSrc (InvalidSrcExpectedKey src))), []) \<and>
         FetchArtifacts s src podName sizeLimit artifactNames =
           (([], Some (ErrorParsingSrc (InvalidSrcExpectedKey src))), [])"
  using assms
  by (simp add: ListArtifacts_def FetchArtifacts_def FetchArtifacts_resolve_def splitSrc_no_sep)

text \<open>
  C3, witness: the reference \<^verbatim>\<open>gcs\<close>.
\<close>

theorem no_separator_is_an_error_witness:
  "CHR ''/'' \<notin> set ''gcs'' \<and>
   ListArtifacts fakeSpyglass ''gcs'' =
     (([], Some (ErrorParsingSrc (InvalidSrcExpectedKey ''gcs''))), []) \<and>
   FetchArtifacts fakeSpyglass ''gcs'' ''pod'' 100 [''a.txt'', ''build-log.txt''] =
     (([], Some (ErrorParsingSrc (InvalidSrcExpectedKey ''gcs''))), [])"
proof -
  have h: "CHR ''/'' \<notin> set ''gcs''" by simp
  from h no_separator_is_an_error [OF h] show ?thesis by blast
qed

text \<open>
  C4. For a job key of exactly two parts whose job lookup succeeds: when the job's status
  URL is the configured prefix followed by a suffix, \<^verbatim>\<open>prowToGCS\<close> returns that suffix and no
  error; when the status URL does not start with the configured prefix, it returns the
  prefix-mismatch error (and the empty path).
\<close>

theorem prowToGCS_strips_prefix:
  assumes "Split prowKey (CHR ''/'') = [jobName, buildID]"
    and "GetProwJob s jobName buildID = Inr job"
  shows "(\<forall>suffix. URL (Status job) = JobURLPrefix s @ suffix \<longrightarrow>
            fst (prowToGCS s prowKey) = (suffix, None)) \<and>
         ((\<forall>suffix. URL (Status job) \<noteq> JobURLPrefix s @ suffix) \<longrightarrow>
            fst (prowToGCS s prowKey) =
              ('''', Some (UnexpectedJobURL (URL (Status job)) (JobURLPrefix s))))"
  using assms by (auto simp add: prowToGCS_def HasPrefix_iff)

text \<open>
  C4, witness: the job \<^verbatim>\<open>job/123\<close> lives under the prefix, the job \<^verbatim>\<open>job/7\<close> does not.
\<close>

theorem prowToGCS_strips_prefix_witness:
  "Split ''job/123'' (CHR ''/'') = [''job'', ''123''] \<and>
   GetProwJob fakeSpyglass ''job'' ''123'' =
     Inr \<lparr> Status = \<lparr> URL = ''https://prow/view/gcs/bucket/job/123'' \<rparr> \<rparr> \<and>
   fst (prowToGCS fakeSpyglass ''job/123'') = (''bucket/job/123'', None) \<and>
   Split ''job/7'' (CHR ''/'') = [''job'', ''7''] \<and>
   GetProwJob fakeSpyglass ''job'' ''7'' =
     Inr \<lparr> Status = \<lparr> URL = ''https://elsewhere/bucket/job/7'' \<rparr> \<rparr> \<and>
   fst (prowToGCS fakeSpyglass ''job/7'') =
     ('''', Some (UnexpectedJobURL ''https://elsewhere/bucket/job/7'' ''https://prow/view/gcs/''))"
proof -
  have a: "Split ''job/123'' (CHR ''/'') = [''job'', ''123'']" by simp
  have b: "GetProwJob fakeSpyglass ''job'' ''123'' =
     Inr \<lparr> Status = \<lparr> URL = ''https://prow/view/gcs/bucket/job/123'' \<rparr> \<rparr>"
    by (simp add: fakeSpyglass_def)
  have c: "Split ''job/7'' (CHR ''/'') = [''job'', ''7'']" by simp
  have d: "GetProwJob fakeSpyglass ''job'' ''7'' =
     Inr \<lparr> Status = \<lparr> URL = ''https://elsewhere/bucket/job/7'' \<rparr> \<rparr>"
    by (simp add: fakeSpyglass_def)
  have p: "JobURLPrefix fakeSpyglass = ''https://prow/view/gcs/''"
    by (simp add: fakeSpyglass_def)
  from prowToGCS_strips_prefix [OF a b] p
  have "fst (prowToGCS fakeSpyglass ''job/123'') = (''bucket/job/123'', None)" by simp
  moreover from prowToGCS_strips_prefix [OF c d] p
  have "fst (prowToGCS fakeSpyglass ''job/7'') =
     ('''', Some (UnexpectedJobURL ''https://elsewhere/bucket/job/7'' ''https://prow/view/gcs/''))"
    by simp
  ultimately show ?thesis using a b c d by blast
qed

text \<open>
  C5 as stated fails. For the direct reference \<^verbatim>\<open>gcs/bucket/job/125/\<close> the path that
  \<^verbatim>\<open>ListArtifacts\<close> hands to the listing collaborator is the key with its trailing separator,
  not the trimmed key.
\<close>

theorem ListArtifacts_untrimmed_counterexample:
  "splitSrc ''gcs/bucket/job/125/'' = (gcsKeyType fakeSpyglass, ''bucket/job/125/'', None) \<and>
   storagePaths (snd (ListArtifacts fakeSpyglass ''gcs/bucket/job/125/'')) = [''bucket/job/125/''] \<and>
   trimTrailingSeparators ''bucket/job/125/'' = ''bucket/job/125''"
  by (simp add: run_defs)

lemma trimTrailingSeparators_id:
  "key = [] \<or> last key \<noteq> CHR ''/'' \<Longrightarrow> trimTrailingSeparators key = key"
  by (cases key rule: rev_cases) (auto simp add: trimTrailingSeparators_def)

text \<open>
  C5 (amended). For a direct reference, \<^verbatim>\<open>ListArtifacts\<close> hands the key verbatim, untrimmed,
  to the listing collaborator, once; \<^verbatim>\<open>FetchArtifacts\<close> hands to the handle collaborator,
  once per requested name, the key without its last byte when that is a separator (one
  separator at most is removed), and the key verbatim otherwise. For a key that does not end
  in a separator both paths are the key, which is then also the trimmed key.
\<close>

theorem direct_reference_paths:
  assumes "splitSrc src = (gcsKeyType s, key, None)"
  shows "storagePaths (snd (ListArtifacts s src)) = [key] \<and>
         storagePaths (snd (FetchArtifacts s src podName sizeLimit artifactNames)) =
           replicate (length artifactNames) (TrimSuffix key ''/'') \<and>
         TrimSuffix key ''/'' = (if key \<noteq> [] \<and> last key = CHR ''/'' then butlast key else key) \<and>
         (key = [] \<or> last key \<noteq> CHR ''/'' \<longrightarrow> trimTrailingSeparators key = key)"
proof -
  have "storagePaths (snd (ListArtifacts s src)) = [key]"
    using assms by (simp add: ListArtifacts_gcs storagePaths_ListArtifacts_list)
  moreover
  have "\<exists>jobName buildID tr0.
      FetchArtifacts_resolve s src = Inr (TrimSuffix key ''/'', jobName, buildID, tr0)"
    using assms by (simp add: FetchArtifacts_resolve_gcs Let_def)
  then obtain jobName buildID tr0 where
    r: "FetchArtifacts_resolve s src = Inr (TrimSuffix key ''/'', jobName, buildID, tr0)"
    by blast
  have "storagePaths tr0 = []" using FetchArtifacts_resolve_trace [OF r] by simp
  then have "storagePaths (snd (FetchArtifacts s src podName sizeLimit artifactNames)) =
           replicate (length artifactNames) (TrimSuffix key ''/'')"
    by (simp add: FetchArtifacts_resolved [OF r] FetchArtifacts_fetch_eq storagePaths_append
          storagePaths_loopTrace)
       (simp add: storagePaths_def map_filter_def split: sum.splits)
  ultimately show ?thesis
    using TrimSuffix_sep [of key] trimTrailingSeparators_id [of key] by blast
qed

text \<open>
  C5, witness: the reference \<^verbatim>\<open>gcs/bucket/job/124/\<close>.
\<close>

theorem direct_reference_paths_witness:
  "splitSrc ''gcs/bucket/job/124/'' = (gcsKeyType fakeSpyglass, ''bucket/job/124/'', None) \<and>
   storagePaths (snd (ListArtifacts fakeSpyglass ''gcs/bucket/job/124/'')) = [''bucket/job/124/''] \<and>
   storagePaths (snd (FetchArtifacts fakeSpyglass ''gcs/bucket/job/124/'' ''pod'' 100
       [''a.txt'', ''build-log.txt''])) = [''bucket/job/124'', ''bucket/job/124'']"
proof -
  have h: "splitSrc ''gcs/bucket/job/124/'' = (gcsKeyType fakeSpyglass, ''bucket/job/124/'', None)"
    by (simp add: splitSrc_def numeral_2_eq_2 fakeSpyglass_def)
  from direct_reference_paths [OF h, of "''pod''" 100 "[''a.txt'', ''build-log.txt'']"]
  show ?thesis using h by (simp add: numeral_2_eq_2)
qed

text \<open>
  C9 as stated fails. \<^verbatim>\<open>splitSrc\<close> accepts the reference \<^verbatim>\<open>gcs/\<close>, and the key it returns is
  empty.
\<close>

theorem splitSrc_empty_key_counterexample:
  "CHR ''/'' \<in> set ''gcs/'' \<and> splitSrc ''gcs/'' = (''gcs'', '''', None)"
  by (simp add: splitSrc_def numeral_2_eq_2)

lemma takeWhile_tl_dropWhile:
  "c \<in> set s \<Longrightarrow> s = takeWhile (\<lambda>x. x \<noteq> c) s @ c # tl (dropWhile (\<lambda>x. x \<noteq> c) s)"
  by (induction s) auto

text \<open>
  C9 (amended). For every input with at least one separator \<^verbatim>\<open>splitSrc\<close> succeeds; the key
  type is the part before the first separator, the key is all that follows it, and the key is
  non-empty exactly when the input goes on after its first separator.
\<close>

theorem splitSrc_accepts:
  assumes "CHR ''/'' \<in> set src"
  shows "\<exists>keyType key.
           splitSrc src = (keyType, key, None) \<and> src = keyType @ ''/'' @ key \<and>
           CHR ''/'' \<notin> set keyType \<and> (key \<noteq> [] \<longleftrightarrow> length keyType + 1 < length src)"
proof -
  define keyType where "keyType = takeWhile (\<lambda>x. x \<noteq> CHR ''/'') src"
  define key where "key = tl (dropWhile (\<lambda>x. x \<noteq> CHR ''/'') src)"
  have 1: "splitSrc src = (keyType, key, None)"
    using assms by (simp add: splitSrc_sep keyType_def key_def)
  have 2: "src = keyType @ ''/'' @ key"
    using takeWhile_tl_dropWhile [OF assms] by (simp add: keyType_def key_def)
  have 3: "CHR ''/'' \<notin> set keyType"
    by (auto simp add: keyType_def dest: set_takeWhileD)
  have "length src = length keyType + 1 + length key" by (subst 2) simp
  then have 4: "key \<noteq> [] \<longleftrightarrow> length keyType + 1 < length src" by auto
  from 1 2 3 4 show ?thesis by blast
qed

text \<open>
  C9, witness: the reference \<^verbatim>\<open>gcs/a/b\<close>.
\<close>

theorem splitSrc_accepts_witness:
  "CHR ''/'' \<in> set ''gcs/a/b'' \<and> splitSrc ''gcs/a/b'' = (''gcs'', ''a/b'', None) \<and>
   (\<exists>keyType key.
      splitSrc ''gcs/a/b'' = (keyType, key, None) \<and> ''gcs/a/b'' = keyType @ ''/'' @ key \<and>
      CHR ''/'' \<notin> set keyType \<and> (key \<noteq> [] \<longleftrightarrow> length keyType + 1 < length ''gcs/a/b''))"
proof -
  have h: "CHR ''/'' \<in> set ''gcs/a/b''" by simp
  have "splitSrc ''gcs/a/b'' = (''gcs'', ''a/b'', None)" by (simp add: splitSrc_def numeral_2_eq_2)
  with h splitSrc_accepts [OF h] show ?thesis by blast
qed

lemma last_two:
  "2 \<le> length xs \<Longrightarrow>
   xs = take (length xs - 2) xs @ [xs ! (length xs - 2), xs ! (length xs - 1)]"
proof (induction xs rule: rev_induct)
  case Nil
  then show ?case by simp
next
  case (snoc x xs)
  then obtain ys y where xs: "xs = ys @ [y]" by (cases xs rule: rev_cases) auto
  show ?case by (simp add: xs nth_append)
qed

lemma two_elems: "length xs = 2 \<Longrightarrow> xs = [xs ! 0, xs ! 1]"
  by (cases xs; cases "tl xs") auto

text \<open>Where \<^verbatim>\<open>jobName\<close> and \<^verbatim>\<open>buildID\<close> come from.\<close>

lemma FetchArtifacts_resolve_locator:
  assumes "FetchArtifacts_resolve s src = Inr (gcsKey, jobName, buildID, tr0)"
  shows "(fst (splitSrc src) = gcsKeyType s \<longrightarrow>
            (if length (Split (TrimSuffix (fst (snd (splitSrc src))) ''/'') (CHR ''/'')) < 2
             then jobName = '''' \<and> buildID = ''''
             else \<exists>pre. Split (TrimSuffix (fst (snd (splitSrc src))) ''/'') (CHR ''/'') =
                          pre @ [jobName, buildID])) \<and>
         (fst (splitSrc src) \<noteq> gcsKeyType s \<longrightarrow>
            Split (fst (snd (splitSrc src))) (CHR ''/'') = [jobName, buildID])"
proof -
  obtain kt key e where sp: "splitSrc src = (kt, key, e)" by (cases "splitSrc src")
  from assms sp have e: "e = None" by (cases e) (simp_all add: FetchArtifacts_resolve_def)
  show ?thesis
  proof (cases "kt = gcsKeyType s")
    case True
    define parts where "parts = Split (TrimSuffix key ''/'') (CHR ''/'')"
    from assms sp e True have r: "(if length parts < 2
        then Inr (TrimSuffix key ''/'', '''', '''', [Logged (WarnInvalidGcsKey (TrimSuffix key ''/''))])
        else Inr (TrimSuffix key ''/'', parts ! (length parts - 2), parts ! (length parts - 1), [])) =
        (Inr (gcsKey, jobName, buildID, tr0) :: 'b list \<times> error option + _)"
      by (auto simp add: FetchArtifacts_resolve_gcs Let_def parts_def split: if_splits)
    have "if length parts < 2 then jobName = '''' \<and> buildID = ''''
          else \<exists>pre. parts = pre @ [jobName, buildID]"
    proof (cases "length parts < 2")
      case True
      with r show ?thesis by simp
    next
      case False
      with r have j: "jobName = parts ! (length parts - 2)"
        and b: "buildID = parts ! (length parts - 1)" by simp_all
      from False have "parts = take (length parts - 2) parts @ [jobName, buildID]"
        unfolding j b by (intro last_two) simp
      then have "\<exists>pre. parts = pre @ [jobName, buildID]" by blast
      with False show ?thesis by simp
    qed
    then have "if length (Split (TrimSuffix key ''/'') (CHR ''/'')) < 2
          then jobName = '''' \<and> buildID = ''''
          else \<exists>pre. Split (TrimSuffix key ''/'') (CHR ''/'') = pre @ [jobName, buildID]"
      unfolding parts_def .
    with sp True show ?thesis by simp
  next
    case False
    with assms sp e have kp: "kt = prowKeyType s"
      by (auto simp add: FetchArtifacts_resolve_def split: if_splits)
    with assms sp e False have len: "length (Split key (CHR ''/'')) = 2"
      by (auto simp add: FetchArtifacts_resolve_def Let_def split: if_splits)
    from assms sp e False kp len have
      "jobName = Split key (CHR ''/'') ! 0" "buildID = Split key (CHR ''/'') ! 1"
      using FetchArtifacts_resolve_prow [of src s key] by simp_all
    with two_elems [OF len] sp False show ?thesis by simp
  qed
qed

lemma probe_ok_handle:
  "\<not> probeFails s k l n \<Longrightarrow> fst (probe s k n l) = GCS_artifact s k n l"
  by (auto simp add: probeFails_def probe_def split: sum.splits)

lemma podLogCalls_FetchArtifacts:
  assumes "FetchArtifacts_resolve s src = Inr (gcsKey, jobName, buildID, tr0)"
  shows "podLogCalls (snd (FetchArtifacts s src pod l names)) =
           (if ''build-log.txt'' \<in> set names \<and> probeFails s gcsKey l ''build-log.txt''
            then [PodLog_artifact_call jobName buildID l] else [])"
proof -
  have "podLogCalls tr0 = []" using FetchArtifacts_resolve_trace [OF assms] by simp
  then show ?thesis
    by (simp add: FetchArtifacts_resolved [OF assms] FetchArtifacts_fetch_eq podLogCalls_append
          podLogCalls_loopTrace)
       (simp add: podLogCalls_def split: sum.splits)
qed

lemma FetchArtifacts_result:
  assumes "FetchArtifacts_resolve s src = Inr (gcsKey, jobName, buildID, tr0)"
  shows "fst (FetchArtifacts s src pod l names) =
           (fetched s gcsKey l names @ podLogFallback s gcsKey jobName buildID l names, None)"
  by (simp add: FetchArtifacts_resolved [OF assms] FetchArtifacts_fetch_eq)

text \<open>
  C6. In a call of \<^verbatim>\<open>FetchArtifacts\<close> that gets past the parsing of its reference, with
  \<^verbatim>\<open>build-log.txt\<close> among the requested names, and in which the handle-or-probe step fails for
  \<^verbatim>\<open>build-log.txt\<close> and for no other requested name: the pod-log collaborator is called exactly
  once, with \<^verbatim>\<open>jobName\<close> and \<^verbatim>\<open>buildID\<close>, which come from the reference (the last two segments
  of the trimmed key of a direct reference, or both empty when it has fewer than two; the two
  parts of the key of a job-addressed reference). The result is the storage handle of every
  other requested name, in order, followed by the pod-log handle when the fallback succeeds and
  by nothing when it fails; no error is returned in either case.
\<close>

theorem pod_log_fallback:
  assumes res: "FetchArtifacts_resolve s src = Inr (gcsKey, jobName, buildID, tr0)"
    and req: "''build-log.txt'' \<in> set artifactNames"
    and fail: "\<forall>n\<in>set artifactNames. probeFails s gcsKey sizeLimit n \<longleftrightarrow> n = ''build-log.txt''"
  shows "podLogCalls (snd (FetchArtifacts s src podName sizeLimit artifactNames)) =
           [PodLog_artifact_call jobName buildID sizeLimit] \<and>
         (fst (splitSrc src) = gcsKeyType s \<longrightarrow>
            (if length (Split (TrimSuffix (fst (snd (splitSrc src))) ''/'') (CHR ''/'')) < 2
             then jobName = '''' \<and> buildID = ''''
             else \<exists>pre. Split (TrimSuffix (fst (snd (splitSrc src))) ''/'') (CHR ''/'') =
                          pre @ [jobName, buildID])) \<and>
         (fst (splitSrc src) \<noteq> gcsKeyType s \<longrightarrow>
            Split (fst (snd (splitSrc src))) (CHR ''/'') = [jobName, buildID]) \<and>
         fst (FetchArtifacts s src podName sizeLimit artifactNames) =
           (map (\<lambda>n. projr (GCS_artifact s gcsKey n sizeLimit))
              (filter (\<lambda>n. n \<noteq> ''build-log.txt'') artifactNames) @
            (case PodLog_artifact s jobName buildID sizeLimit of
               Inl err \<Rightarrow> [] | Inr art \<Rightarrow> [art]),
            None)"
proof -
  from req fail have lf: "probeFails s gcsKey sizeLimit ''build-log.txt''" by blast
  have calls: "podLogCalls (snd (FetchArtifacts s src podName sizeLimit artifactNames)) =
           [PodLog_artifact_call jobName buildID sizeLimit]"
    using req lf by (simp add: podLogCalls_FetchArtifacts [OF res])
  have filt: "filter (\<lambda>n. \<not> probeFails s gcsKey sizeLimit n) artifactNames =
        filter (\<lambda>n. n \<noteq> ''build-log.txt'') artifactNames"
    using fail by (intro filter_cong) auto
  have "fetched s gcsKey sizeLimit artifactNames =
          map (\<lambda>n. projr (GCS_artifact s gcsKey n sizeLimit))
            (filter (\<lambda>n. n \<noteq> ''build-log.txt'') artifactNames)"
    unfolding fetched_def filt using fail by (intro map_cong) (auto simp add: probe_ok_handle)
  moreover have "podLogFallback s gcsKey jobName buildID sizeLimit artifactNames =
      (case PodLog_artifact s jobName buildID sizeLimit of Inl err \<Rightarrow> [] | Inr art \<Rightarrow> [art])"
    using req lf by (simp add: podLogFallback_def)
  ultimately have result: "fst (FetchArtifacts s src podName sizeLimit artifactNames) =
           (map (\<lambda>n. projr (GCS_artifact s gcsKey n sizeLimit))
              (filter (\<lambda>n. n \<noteq> ''build-log.txt'') artifactNames) @
            (case PodLog_artifact s jobName buildID sizeLimit of
               Inl err \<Rightarrow> [] | Inr art \<Rightarrow> [art]),
            None)"
    by (simp add: FetchArtifacts_result [OF res])
  from FetchArtifacts_resolve_locator [OF res] calls result show ?thesis by blast
qed

text \<open>
  C6, witness: \<^verbatim>\<open>bucket/job/124\<close>, whose pod answers, and \<^verbatim>\<open>bucket/job/127\<close>, whose pod does not.
\<close>

theorem pod_log_fallback_witness:
  "FetchArtifacts fakeSpyglass ''gcs/bucket/job/124'' ''pod'' 100 [''a.txt'', ''build-log.txt''] =
     (([''bucket/job/124/a.txt'', ''pod:job/124''], None),
      [artifact_call ''bucket/job/124'' ''a.txt'' 100, Size_call ''bucket/job/124/a.txt'',
       artifact_call ''bucket/job/124'' ''build-log.txt'' 100,
       Size_call ''bucket/job/124/build-log.txt'',
       PodLog_artifact_call ''job'' ''124'' 100,
       Logged (InfoRetrievedArtifacts ''gcs/bucket/job/124'')]) \<and>
   fst (FetchArtifacts fakeSpyglass ''gcs/bucket/job/127/'' ''pod'' 100
          [''build-log.txt'', ''a.txt'']) =
     ([''bucket/job/127/a.txt''], None) \<and>
   podLogCalls (snd (FetchArtifacts fakeSpyglass ''gcs/bucket/job/127/'' ''pod'' 100
          [''build-log.txt'', ''a.txt''])) = [PodLog_artifact_call ''job'' ''127'' 100]"
proof -
  have r1: "FetchArtifacts_resolve fakeSpyglass ''gcs/bucket/job/124'' =
      Inr (''bucket/job/124'', ''job'', ''124'', [])"
    by (simp add: run_defs)
  have q1: "''build-log.txt'' \<in> set [''a.txt'', ''build-log.txt'']" by simp
  have f1: "\<forall>n\<in>set [''a.txt'', ''build-log.txt''].
      probeFails fakeSpyglass ''bucket/job/124'' 100 n \<longleftrightarrow> n = ''build-log.txt''"
    by (simp add: run_defs)
  have r2: "FetchArtifacts_resolve fakeSpyglass ''gcs/bucket/job/127/'' =
      Inr (''bucket/job/127'', ''job'', ''127'', [])"
    by (simp add: run_defs)
  have q2: "''build-log.txt'' \<in> set [''build-log.txt'', ''a.txt'']" by simp
  have f2: "\<forall>n\<in>set [''build-log.txt'', ''a.txt''].
      probeFails fakeSpyglass ''bucket/job/127'' 100 n \<longleftrightarrow> n = ''build-log.txt''"
    by (simp add: run_defs)
  have run: "snd (FetchArtifacts fakeSpyglass ''gcs/bucket/job/124'' ''pod'' 100
       [''a.txt'', ''build-log.txt'']) =
      [artifact_call ''bucket/job/124'' ''a.txt'' 100, Size_call ''bucket/job/124/a.txt'',
       artifact_call ''bucket/job/124'' ''build-log.txt'' 100,
       Size_call ''bucket/job/124/build-log.txt'',
       PodLog_artifact_call ''job'' ''124'' 100,
       Logged (InfoRetrievedArtifacts ''gcs/bucket/job/124'')]"
    by (simp add: run_defs)
  have g: "GCS_artifact fakeSpyglass ''bucket/job/124'' ''a.txt'' 100 = Inr ''bucket/job/124/a.txt''"
    "PodLog_artifact fakeSpyglass ''job'' ''124'' 100 = Inr ''pod:job/124''"
    "GCS_artifact fakeSpyglass ''bucket/job/127'' ''a.txt'' 100 = Inr ''bucket/job/127/a.txt''"
    "PodLog_artifact fakeSpyglass ''job'' ''127'' 100 = Inl (CollaboratorError ''no such pod'')"
    by (simp_all add: fakeSpyglass_def)
  from pod_log_fallback [OF r1 q1 f1, of "''pod''"] pod_log_fallback [OF r2 q2 f2, of "''pod''"]
  show ?thesis using run g by (simp add: prod_eq_iff)
qed

lemma fetched_removeAll:
  "probeFails s k l n \<Longrightarrow> fetched s k l (removeAll n names) = fetched s k l names"
proof -
  assume f: "probeFails s k l n"
  have "filter (\<lambda>x. \<not> probeFails s k l x) (removeAll n names) =
        filter (\<lambda>x. \<not> probeFails s k l x) names"
    using f by (induction names) auto
  then show ?thesis by (simp add: fetched_def)
qed

lemma podLogFallback_removeAll:
  "n \<noteq> ''build-log.txt'' \<Longrightarrow>
   podLogFallback s k j b l (removeAll n names) = podLogFallback s k j b l names"
  by (simp add: podLogFallback_def)

text \<open>
  C7. In a call of \<^verbatim>\<open>FetchArtifacts\<close> that gets past the parsing of its reference, when the
  handle-or-probe step fails for a name other than \<^verbatim>\<open>build-log.txt\<close>: the result is built from
  the other requested names only, it is the result of the same call without that name, and the
  calls to the pod-log collaborator are those of the same call without that name.
\<close>

theorem other_failure_is_dropped:
  assumes res: "FetchArtifacts_resolve s src = Inr (gcsKey, jobName, buildID, tr0)"
    and other: "name \<noteq> ''build-log.txt''"
    and fail: "probeFails s gcsKey sizeLimit name"
  shows "fst (FetchArtifacts s src podName sizeLimit artifactNames) =
           (fetched s gcsKey sizeLimit (removeAll name artifactNames) @
            podLogFallback s gcsKey jobName buildID sizeLimit (removeAll name artifactNames), None) \<and>
         fst (FetchArtifacts s src podName sizeLimit artifactNames) =
           fst (FetchArtifacts s src podName sizeLimit (removeAll name artifactNames)) \<and>
         podLogCalls (snd (FetchArtifacts s src podName sizeLimit artifactNames)) =
           podLogCalls (snd (FetchArtifacts s src podName sizeLimit (removeAll name artifactNames)))"
  using other
  by (simp add: FetchArtifacts_result [OF res] podLogCalls_FetchArtifacts [OF res]
        fetched_removeAll [OF fail] podLogFallback_removeAll [OF other])

text \<open>
  C7, witness: \<^verbatim>\<open>b.txt\<close> is requested from \<^verbatim>\<open>bucket/job/123\<close>, which does not hold it.
\<close>

theorem other_failure_is_dropped_witness:
  "FetchArtifacts_resolve fakeSpyglass ''gcs/bucket/job/123'' =
     Inr (''bucket/job/123'', ''job'', ''123'', []) \<and>
   probeFails fakeSpyglass ''bucket/job/123'' 100 ''b.txt'' \<and>
   fst (FetchArtifacts fakeSpyglass ''gcs/bucket/job/123'' ''pod'' 100
          [''a.txt'', ''b.txt'', ''build-log.txt'']) =
     ([''bucket/job/123/a.txt'', ''bucket/job/123/build-log.txt''], None) \<and>
   fst (FetchArtifacts fakeSpyglass ''gcs/bucket/job/123'' ''pod'' 100
          [''a.txt'', ''build-log.txt'']) =
     ([''bucket/job/123/a.txt'', ''bucket/job/123/build-log.txt''], None) \<and>
   podLogCalls (snd (FetchArtifacts fakeSpyglass ''gcs/bucket/job/123'' ''pod'' 100
          [''a.txt'', ''b.txt'', ''build-log.txt''])) = []"
proof -
  have r: "FetchArtifacts_resolve fakeSpyglass ''gcs/bucket/job/123'' =
     Inr (''bucket/job/123'', ''job'', ''123'', [])"
    by (simp add: run_defs)
  have o: "''b.txt'' \<noteq> ''build-log.txt''" by simp
  have f: "probeFails fakeSpyglass ''bucket/job/123'' 100 ''b.txt''"
    by (simp add: run_defs)
  have run: "FetchArtifacts fakeSpyglass ''gcs/bucket/job/123'' ''pod'' 100
          [''a.txt'', ''build-log.txt''] =
     (([''bucket/job/123/a.txt'', ''bucket/job/123/build-log.txt''], None),
      [artifact_call ''bucket/job/123'' ''a.txt'' 100, Size_call ''bucket/job/123/a.txt'',
       artifact_call ''bucket/job/123'' ''build-log.txt'' 100,
       Size_call ''bucket/job/123/build-log.txt'',
       Logged (InfoRetrievedArtifacts ''gcs/bucket/job/123'')])"
    by (simp add: run_defs)
  have ra: "removeAll ''b.txt'' [''a.txt'', ''b.txt'', ''build-log.txt''] =
      [''a.txt'', ''build-log.txt'']" by simp
  note t = other_failure_is_dropped
    [OF r o f, of "''pod''" "[''a.txt'', ''b.txt'', ''build-log.txt'']", unfolded ra]
  from t have same: "fst (FetchArtifacts fakeSpyglass ''gcs/bucket/job/123'' ''pod'' 100
          [''a.txt'', ''b.txt'', ''build-log.txt'']) =
      fst (FetchArtifacts fakeSpyglass ''gcs/bucket/job/123'' ''pod'' 100
          [''a.txt'', ''build-log.txt''])"
    and calls: "podLogCalls (snd (FetchArtifacts fakeSpyglass ''gcs/bucket/job/123'' ''pod'' 100
          [''a.txt'', ''b.txt'', ''build-log.txt''])) =
      podLogCalls (snd (FetchArtifacts fakeSpyglass ''gcs/bucket/job/123'' ''pod'' 100
          [''a.txt'', ''build-log.txt'']))"
    by blast+
  show ?thesis unfolding same calls using r f by (simp add: run podLogCalls_def)
qed

text \<open>
  C8. For a job-addressed reference whose key has exactly two parts and whose resolution
  fails, by a failed job lookup or by a status URL that does not start with the configured
  prefix: \<^verbatim>\<open>prowToGCS\<close> returns the empty path with its error, and neither operation returns an
  error. \<^verbatim>\<open>ListArtifacts\<close> lists the empty path and its result contains the build log;
  \<^verbatim>\<open>FetchArtifacts\<close> asks for every requested name under the empty path, and its result is
  what these requests and the pod-log fallback give.
\<close>

theorem resolution_failure_degrades:
  assumes sp: "splitSrc src = (prowKeyType s, key, None)"
    and distinct: "prowKeyType s \<noteq> gcsKeyType s"
    and wf: "Split key (CHR ''/'') = [jobName, buildID]"
    and unresolved: "isl (GetProwJob s jobName buildID) \<or>
        (\<forall>suffix. URL (Status (projr (GetProwJob s jobName buildID))) \<noteq> JobURLPrefix s @ suffix)"
  shows "fst (fst (prowToGCS s key)) = '''' \<and> snd (fst (prowToGCS s key)) \<noteq> None \<and>
         snd (fst (ListArtifacts s src)) = None \<and>
         storagePaths (snd (ListArtifacts s src)) = [''''] \<and>
         ''build-log.txt'' \<in> set (fst (fst (ListArtifacts s src))) \<and>
         fst (FetchArtifacts s src podName sizeLimit artifactNames) =
           (fetched s '''' sizeLimit artifactNames @
            podLogFallback s '''' jobName buildID sizeLimit artifactNames, None) \<and>
         storagePaths (snd (FetchArtifacts s src podName sizeLimit artifactNames)) =
           replicate (length artifactNames) ''''"
proof -
  have p: "fst (fst (prowToGCS s key)) = '''' \<and> snd (fst (prowToGCS s key)) \<noteq> None"
    using wf unresolved
    by (cases "GetProwJob s jobName buildID") (auto simp add: prowToGCS_def Let_def HasPrefix_iff)
  have l: "ListArtifacts s src =
     (fst (ListArtifacts_list s ''''),
      snd (prowToGCS s key) @
      (case snd (fst (prowToGCS s key)) of None \<Rightarrow> []
       | Some e \<Rightarrow> [Logged (WarnFailedToGetGcsSource e)]) @
      snd (ListArtifacts_list s ''''))"
    using ListArtifacts_prow [OF sp distinct] p by simp
  have l1: "snd (fst (ListArtifacts s src)) = None"
    by (simp add: l ListArtifacts_list_no_error)
  have l2: "storagePaths (snd (ListArtifacts s src)) = ['''']"
    by (simp add: l storagePaths_append storagePaths_prowToGCS storagePaths_ListArtifacts_list)
       (simp add: storagePaths_def map_filter_def split: option.splits)
  have l3: "''build-log.txt'' \<in> set (fst (fst (ListArtifacts s src)))"
    by (cases "GCS_artifacts s ''''") (simp add: l ListArtifacts_list_eq)
  have "length (Split key (CHR ''/'')) = 2" using wf by simp
  from FetchArtifacts_resolve_prow [OF sp distinct this] p wf
  have r: "FetchArtifacts_resolve s src =
     Inr ('''', jobName, buildID,
          snd (prowToGCS s key) @
          (case snd (fst (prowToGCS s key)) of None \<Rightarrow> [] | Some e \<Rightarrow> [Logged (Warningln e)]))"
    by simp
  have f1: "fst (FetchArtifacts s src podName sizeLimit artifactNames) =
           (fetched s '''' sizeLimit artifactNames @
            podLogFallback s '''' jobName buildID sizeLimit artifactNames, None)"
    by (rule FetchArtifacts_result [OF r])
  have "storagePaths (snd (prowToGCS s key) @
          (case snd (fst (prowToGCS s key)) of None \<Rightarrow> [] | Some e \<Rightarrow> [Logged (Warningln e)])) = []"
    using FetchArtifacts_resolve_trace [OF r] by simp
  then have f2: "storagePaths (snd (FetchArtifacts s src podName sizeLimit artifactNames)) =
           replicate (length artifactNames) ''''"
    by (simp add: FetchArtifacts_resolved [OF r] FetchArtifacts_fetch_eq storagePaths_append
          storagePaths_loopTrace del: append_assoc)
       (simp add: storagePaths_def map_filter_def split: sum.splits)
  from p l1 l2 l3 f1 f2 show ?thesis by blast
qed

text \<open>
  C8, witness: the job \<^verbatim>\<open>job/7\<close> lives outside the prefix, the job \<^verbatim>\<open>job/9\<close> is unknown.
\<close>

theorem resolution_failure_degrades_witness:
  "splitSrc ''prowjob/job/7'' = (prowKeyType fakeSpyglass, ''job/7'', None) \<and>
   prowKeyType fakeSpyglass \<noteq> gcsKeyType fakeSpyglass \<and>
   Split ''job/7'' (CHR ''/'') = [''job'', ''7''] \<and>
   \<not> isl (GetProwJob fakeSpyglass ''job'' ''7'') \<and>
   (\<forall>suffix. URL (Status (projr (GetProwJob fakeSpyglass ''job'' ''7''))) \<noteq>
      JobURLPrefix fakeSpyglass @ suffix) \<and>
   snd (fst (ListArtifacts fakeSpyglass ''prowjob/job/7'')) = None \<and>
   storagePaths (snd (ListArtifacts fakeSpyglass ''prowjob/job/7'')) = [''''] \<and>
   ''build-log.txt'' \<in> set (fst (fst (ListArtifacts fakeSpyglass ''prowjob/job/7''))) \<and>
   fst (FetchArtifacts fakeSpyglass ''prowjob/job/7'' ''pod'' 100 [''a.txt'', ''build-log.txt'']) =
     ([], None) \<and>
   storagePaths (snd (FetchArtifacts fakeSpyglass ''prowjob/job/7'' ''pod'' 100
     [''a.txt'', ''build-log.txt''])) = ['''', ''''] \<and>
   isl (GetProwJob fakeSpyglass ''job'' ''9'') \<and>
   snd (fst (ListArtifacts fakeSpyglass ''prowjob/job/9'')) = None \<and>
   snd (fst (FetchArtifacts fakeSpyglass ''prowjob/job/9'' ''pod'' 100 [''a.txt''])) = None"
proof -
  have sp: "splitSrc ''prowjob/job/7'' = (prowKeyType fakeSpyglass, ''job/7'', None)"
    by (simp add: run_defs)
  have d: "prowKeyType fakeSpyglass \<noteq> gcsKeyType fakeSpyglass"
    by (simp add: fakeSpyglass_def)
  have wf: "Split ''job/7'' (CHR ''/'') = [''job'', ''7'']" by simp
  have g: "\<not> isl (GetProwJob fakeSpyglass ''job'' ''7'')" by (simp add: fakeSpyglass_def)
  have u: "\<forall>suffix. URL (Status (projr (GetProwJob fakeSpyglass ''job'' ''7''))) \<noteq>
      JobURLPrefix fakeSpyglass @ suffix"
    by (simp add: fakeSpyglass_def)
  then have u': "isl (GetProwJob fakeSpyglass ''job'' ''7'') \<or>
      (\<forall>suffix. URL (Status (projr (GetProwJob fakeSpyglass ''job'' ''7''))) \<noteq>
         JobURLPrefix fakeSpyglass @ suffix)" ..
  have sp9: "splitSrc ''prowjob/job/9'' = (prowKeyType fakeSpyglass, ''job/9'', None)"
    by (simp add: run_defs)
  have wf9: "Split ''job/9'' (CHR ''/'') = [''job'', ''9'']" by simp
  have g9: "isl (GetProwJob fakeSpyglass ''job'' ''9'')" by (simp add: fakeSpyglass_def)
  then have u9: "isl (GetProwJob fakeSpyglass ''job'' ''9'') \<or>
      (\<forall>suffix. URL (Status (projr (GetProwJob fakeSpyglass ''job'' ''9''))) \<noteq>
         JobURLPrefix fakeSpyglass @ suffix)" ..
  have ev: "fetched fakeSpyglass '''' 100 [''a.txt'', ''build-log.txt''] @
      podLogFallback fakeSpyglass '''' ''job'' ''7'' 100 [''a.txt'', ''build-log.txt''] = []"
    by (simp add: run_defs)
  note t7 = resolution_failure_degrades
    [OF sp d wf u', of "''pod''" 100 "[''a.txt'', ''build-log.txt'']", unfolded ev]
  note t9 = resolution_failure_degrades [OF sp9 d wf9 u9, of "''pod''" 100 "[''a.txt'']"]
  have two: "replicate (length [''a.txt'', ''build-log.txt'']) '''' = ['''', '''']"
    by (simp add: numeral_2_eq_2)
  from t7 t9 show ?thesis using sp d wf g u g9 unfolding two by simp
qed

text \<open>
  C10. For a direct reference whose trimmed key has fewer than two segments,
  \<^verbatim>\<open>FetchArtifacts\<close> returns no error, and when the step fails for a requested
  \<^verbatim>\<open>build-log.txt\<close>, the pod-log collaborator is called exactly once, with the empty job name and
  the empty build id.
\<close>

theorem direct_key_without_job:
  assumes sp: "splitSrc src = (gcsKeyType s, key, None)"
    and short: "length (Split (TrimSuffix key ''/'') (CHR ''/'')) < 2"
  shows "snd (fst (FetchArtifacts s src podName sizeLimit artifactNames)) = None \<and>
         (''build-log.txt'' \<in> set artifactNames \<and>
          probeFails s (TrimSuffix key ''/'') sizeLimit ''build-log.txt'' \<longrightarrow>
          podLogCalls (snd (FetchArtifacts s src podName sizeLimit artifactNames)) =
            [PodLog_artifact_call '''' '''' sizeLimit])"
proof -
  from sp short have r: "FetchArtifacts_resolve s src =
      Inr (TrimSuffix key ''/'', '''', '''', [Logged (WarnInvalidGcsKey (TrimSuffix key ''/''))])"
    by (simp add: FetchArtifacts_resolve_gcs Let_def)
  show ?thesis
    by (simp add: FetchArtifacts_result [OF r] podLogCalls_FetchArtifacts [OF r])
qed

text \<open>
  C10, witness: the reference \<^verbatim>\<open>gcs/bucket\<close>.
\<close>

theorem direct_key_without_job_witness:
  "splitSrc ''gcs/bucket'' = (gcsKeyType fakeSpyglass, ''bucket'', None) \<and>
   length (Split (TrimSuffix ''bucket'' ''/'') (CHR ''/'')) < 2 \<and>
   ''build-log.txt'' \<in> set [''a.txt'', ''build-log.txt''] \<and>
   probeFails fakeSpyglass (TrimSuffix ''bucket'' ''/'') 100 ''build-log.txt'' \<and>
   snd (fst (FetchArtifacts fakeSpyglass ''gcs/bucket'' ''pod'' 100
               [''a.txt'', ''build-log.txt''])) = None \<and>
   podLogCalls (snd (FetchArtifacts fakeSpyglass ''gcs/bucket'' ''pod'' 100
               [''a.txt'', ''build-log.txt''])) = [PodLog_artifact_call '''' '''' 100]"
proof -
  have sp: "splitSrc ''gcs/bucket'' = (gcsKeyType fakeSpyglass, ''bucket'', None)"
    by (simp add: run_defs)
  have short: "length (Split (TrimSuffix ''bucket'' ''/'') (CHR ''/'')) < 2"
    by (simp add: run_defs)
  have m: "''build-log.txt'' \<in> set [''a.txt'', ''build-log.txt'']" by simp
  have f: "probeFails fakeSpyglass (TrimSuffix ''bucket'' ''/'') 100 ''build-log.txt''"
    by (simp add: run_defs)
  from direct_key_without_job [OF sp short, of "''pod''" 100 "[''a.txt'', ''build-log.txt'']"]
  show ?thesis using sp short m f by blast
qed

end
